theory Spec2Isabelle
  imports Main "HOL-Library.Word"
begin

section \<open>etl.hpp: SourceLocation and Error\<close>

text \<open>
  A \<open>std::string\<close> and a \<open>std::string_view\<close> are byte sequences with an explicit
  length, modelled as \<open>string\<close> (a \<open>char list\<close>); \<open>uint32_t\<close> is \<open>32 word\<close>.
  Member functions that mutate their object take the object and return the new one.
\<close>

subsection \<open>Strings\<close>

text \<open>\<open>std::string::append\<close>: the receiver followed by the argument.\<close>

definition append :: "string \<Rightarrow> string \<Rightarrow> string" where
  "append s t = s @ t"

text \<open>\<open>std::string::empty\<close>.\<close>

definition empty :: "string \<Rightarrow> bool" where
  "empty s = (s = [])"

text \<open>The character of one decimal digit: \<open>'0' + d\<close>.\<close>

definition digit_char :: "nat \<Rightarrow> char" where
  "digit_char d = char_of (48 + d)"

text \<open>
  \<open>std::to_string(unsigned)\<close> prints its argument in decimal, with no sign and no
  leading zero (\<open>"0"\<close> for zero). \<open>to_string_nat\<close> prints the digits of a natural
  number, most significant first; \<open>to_string\<close> is its use at \<open>uint32_t\<close>.
\<close>

fun to_string_nat :: "nat \<Rightarrow> string" where
  "to_string_nat n =
     (if n < 10 then [digit_char n]
      else to_string_nat (n div 10) @ [digit_char (n mod 10)])"

declare to_string_nat.simps [simp del]

definition to_string :: "32 word \<Rightarrow> string" where
  "to_string w = to_string_nat (unat w)"

text \<open>Reading a decimal numeral back, used to state what \<open>to_string\<close> prints.\<close>

definition digit_value :: "char \<Rightarrow> nat" where
  "digit_value c = of_char c - 48"

definition is_digit :: "char \<Rightarrow> bool" where
  "is_digit c = (48 \<le> (of_char c :: nat) \<and> (of_char c :: nat) \<le> 57)"

definition decimal_value :: "string \<Rightarrow> nat" where
  "decimal_value s = foldl (\<lambda>acc c. 10 * acc + digit_value c) 0 s"

subsection \<open>SourceLocation\<close>

record SourceLocation =
  file_fld :: string
  line_fld :: "32 word"
  func_fld :: string

text \<open>
  The private data members \<open>file_\<close>, \<open>line_\<close>, \<open>func_\<close> are the fields \<open>file_fld\<close>,
  \<open>line_fld\<close>, \<open>func_fld\<close> (a name cannot end in an underscore here); likewise for
  the members of the classes below.

  The only constructor: \<open>SourceLocation(file, line, func)\<close>.
\<close>

definition SourceLocation :: "string \<Rightarrow> 32 word \<Rightarrow> string \<Rightarrow> SourceLocation" where
  "SourceLocation f l fn = \<lparr>file_fld = f, line_fld = l, func_fld = fn\<rparr>"

text \<open>
  The accessors \<open>file()\<close>, \<open>line()\<close> and \<open>function()\<close>; their names are reserved
  words here, hence the suffix.
\<close>

definition file_of :: "SourceLocation \<Rightarrow> string" where
  "file_of slc = file_fld slc"

definition line_of :: "SourceLocation \<Rightarrow> 32 word" where
  "line_of slc = line_fld slc"

definition function_of :: "SourceLocation \<Rightarrow> string" where
  "function_of slc = func_fld slc"

subsection \<open>Error\<close>

record Error =
  msg_fld :: string
  info_fld :: string

text \<open>
  The private constructor \<open>Error(msg)\<close>: \<open>msg_fld\<close> is initialised from the argument,
  \<open>info_fld\<close> keeps its default member initialiser, the empty string.
\<close>

definition Error_msg :: "string \<Rightarrow> Error" where
  "Error_msg m = \<lparr>msg_fld = m, info_fld = []\<rparr>"

text \<open>
  The private constructor \<open>Error(msg, slc)\<close>: \<open>info_fld\<close> starts empty and receives
  the eight \<open>append\<close> calls of the constructor body, in their order.
\<close>

definition Error_msg_slc :: "string \<Rightarrow> SourceLocation \<Rightarrow> Error" where
  "Error_msg_slc m slc =
     \<lparr>msg_fld = m,
      info_fld =
        append (append (append (append (append (append (append (append []
          ''Error: '')
          m)
          (CHR 0x0A # ''Function: ''))
          (function_of slc))
          (CHR 0x0A # ''File: ''))
          (file_of slc))
          '':'')
          (to_string (line_of slc))\<rparr>"

text \<open>The two overloads of the static factory \<open>Error::create\<close>.\<close>

definition create :: "string \<Rightarrow> Error" where
  "create m = Error_msg m"

definition create_slc :: "string \<Rightarrow> SourceLocation \<Rightarrow> Error" where
  "create_slc m slc = Error_msg_slc m slc"

definition msg :: "Error \<Rightarrow> string" where
  "msg e = msg_fld e"

text \<open>
  \<open>Error::set\<close> (both overloads have the same body): assigns \<open>msg_fld\<close> and nothing
  else. The name \<open>set\<close> is taken by lists.
\<close>

definition set_Error :: "string \<Rightarrow> Error \<Rightarrow> Error" where
  "set_Error m e = e\<lparr>msg_fld := m\<rparr>"

definition info :: "Error \<Rightarrow> string" where
  "info e = (if \<not> empty (info_fld e) then info_fld e else msg_fld e)"

section \<open>etl.hpp: Result\<close>

subsection \<open>The generic class template\<close>

text \<open>
  \<open>Result<OkType, ErrType>\<close> has two data members: the \<open>std::variant<OkType, ErrType>\<close>
  \<open>result_\<close>, a sum with \<open>Inl\<close> for the first alternative and \<open>Inr\<close> for the second,
  and the flag \<open>isOk_\<close>. The record keeps both, so that a flag that disagrees with the
  live alternative is a value of the model.
\<close>

record ('ok, 'err) Result =
  result_fld :: "'ok + 'err"
  isOk_fld :: bool

text \<open>
  The constructors from an \<open>OkType\<close> (by copy or by move) and from an \<open>ErrType\<close>
  (by copy or by move). The variant is initialised from a value whose type is exactly
  that of one alternative, which is the alternative it then holds.
\<close>

definition Result_Ok :: "'ok \<Rightarrow> ('ok, 'err) Result" where
  "Result_Ok v = \<lparr>result_fld = Inl v, isOk_fld = True\<rparr>"

definition Result_Err :: "'err \<Rightarrow> ('ok, 'err) Result" where
  "Result_Err e = \<lparr>result_fld = Inr e, isOk_fld = False\<rparr>"

text \<open>
  \<open>std::get_if<OkType>\<close> and \<open>std::get_if<ErrType>\<close>: a pointer to the stored value
  when the variant holds that alternative, the null pointer (\<open>None\<close>) otherwise.
\<close>

definition get_if_Ok :: "'ok + 'err \<Rightarrow> 'ok option" where
  "get_if_Ok u = (case u of Inl v \<Rightarrow> Some v | Inr e \<Rightarrow> None)"

definition get_if_Err :: "'ok + 'err \<Rightarrow> 'err option" where
  "get_if_Err u = (case u of Inl v \<Rightarrow> None | Inr e \<Rightarrow> Some e)"

definition isOk :: "('ok, 'err) Result \<Rightarrow> bool" where
  "isOk r = isOk_fld r"

definition isErr :: "('ok, 'err) Result \<Rightarrow> bool" where
  "isErr r = (\<not> isOk_fld r)"

definition ok :: "('ok, 'err) Result \<Rightarrow> 'ok option" where
  "ok r =
     (if isOk_fld r then
        (case get_if_Ok (result_fld r) of
           Some v \<Rightarrow> Some v
         | None \<Rightarrow> None)
      else None)"

definition err :: "('ok, 'err) Result \<Rightarrow> 'err option" where
  "err r =
     (if \<not> isOk_fld r then
        (case get_if_Err (result_fld r) of
           Some e \<Rightarrow> Some e
         | None \<Rightarrow> None)
      else None)"

text \<open>
  \<open>map\<close> and \<open>mapErr\<close> dereference the pointer that \<open>std::get_if\<close> returns without
  testing it. Dereferencing the null pointer is undefined behaviour; the model stops
  there with a fault.
\<close>

datatype fault = Null_dereference | Dangling_dereference

text \<open>
  The template parameter \<open>Function\<close> of \<open>map\<close> and \<open>mapErr\<close>, seen from the member
  that receives it; \<open>'a\<close> is the type of the alternative the member transforms, \<open>'b\<close>
  the type of the other one.
  \<^item> \<open>Not_invocable_r\<close>: \<open>std::is_invocable_r_v<A, Function, A const &>\<close> is false: the
    callable cannot be called with an \<open>A\<close>, or what it returns does not convert to \<open>A\<close>.
  \<^item> \<open>Invocable_r f\<close>: the trait is true and the value returned initialises the
    constructor of \<open>Result\<close> that takes an \<open>A\<close>; \<open>f\<close> is the call followed by the
    conversion to \<open>A\<close>, the identity conversion for a callable that returns an \<open>A\<close>.
  \<^item> \<open>Invocable_r_other g\<close>: the trait is true, and overload resolution on the value
    returned selects the constructor of \<open>Result\<close> that takes a \<open>B\<close> (the callable
    returns a \<open>B\<close>, or a type that converts better to \<open>B\<close> than to \<open>A\<close>); \<open>g\<close> is
    the call followed by the conversion to \<open>B\<close>.
\<close>

datatype ('a, 'b) Function =
  Invocable_r "'a \<Rightarrow> 'a"
| Invocable_r_other "'a \<Rightarrow> 'b"
| Not_invocable_r

definition map_Result ::
  "('ok, 'err) Function \<Rightarrow> ('ok, 'err) Result \<Rightarrow> fault + ('ok, 'err) Result" where
  "map_Result func r =
     (if isOk_fld r then
        (case func of
           Invocable_r f \<Rightarrow>
             (case get_if_Ok (result_fld r) of
                None \<Rightarrow> Inl Null_dereference
              | Some v \<Rightarrow> Inr (Result_Ok (f v)))
         | Invocable_r_other g \<Rightarrow>
             (case get_if_Ok (result_fld r) of
                None \<Rightarrow> Inl Null_dereference
              | Some v \<Rightarrow> Inr (Result_Err (g v)))
         | Not_invocable_r \<Rightarrow>
             (case get_if_Ok (result_fld r) of
                None \<Rightarrow> Inl Null_dereference
              | Some v \<Rightarrow> Inr (Result_Ok v)))
      else
        (case get_if_Err (result_fld r) of
           None \<Rightarrow> Inl Null_dereference
         | Some e \<Rightarrow> Inr (Result_Err e)))"

definition mapErr ::
  "('err, 'ok) Function \<Rightarrow> ('ok, 'err) Result \<Rightarrow> fault + ('ok, 'err) Result" where
  "mapErr func r =
     (if \<not> isOk_fld r then
        (case func of
           Invocable_r f \<Rightarrow>
             (case get_if_Err (result_fld r) of
                None \<Rightarrow> Inl Null_dereference
              | Some e \<Rightarrow> Inr (Result_Err (f e)))
         | Invocable_r_other g \<Rightarrow>
             (case get_if_Err (result_fld r) of
                None \<Rightarrow> Inl Null_dereference
              | Some e \<Rightarrow> Inr (Result_Ok (g e)))
         | Not_invocable_r \<Rightarrow>
             (case get_if_Err (result_fld r) of
                None \<Rightarrow> Inl Null_dereference
              | Some e \<Rightarrow> Inr (Result_Err e)))
      else
        (case get_if_Ok (result_fld r) of
           None \<Rightarrow> Inl Null_dereference
         | Some v \<Rightarrow> Inr (Result_Ok v)))"

text \<open>
  The ways a \<open>Result\<close> comes to exist: the constructors, and \<open>map\<close> and \<open>mapErr\<close> on
  a \<open>Result\<close> that exists. \<open>build\<close> runs such a history.
\<close>

datatype ('ok, 'err) history =
  From_Ok 'ok
| From_Err 'err
| Map "('ok, 'err) Function" "('ok, 'err) history"
| MapErr "('err, 'ok) Function" "('ok, 'err) history"

fun build :: "('ok, 'err) history \<Rightarrow> fault + ('ok, 'err) Result" where
  "build (From_Ok v) = Inr (Result_Ok v)"
| "build (From_Err e) = Inr (Result_Err e)"
| "build (Map func h) =
     (case build h of Inl x \<Rightarrow> Inl x | Inr r \<Rightarrow> map_Result func r)"
| "build (MapErr func h) =
     (case build h of Inl x \<Rightarrow> Inl x | Inr r \<Rightarrow> mapErr func r)"

text \<open>The flag of a \<open>Result\<close> agrees with the alternative its variant holds.\<close>

definition consistent :: "('ok, 'err) Result \<Rightarrow> bool" where
  "consistent r =
     (case result_fld r of Inl v \<Rightarrow> isOk_fld r | Inr e \<Rightarrow> \<not> isOk_fld r)"

subsection \<open>The partial specialisation for \<open>std::unique_ptr\<close>\<close>

text \<open>
  A \<open>std::unique_ptr<OkType>\<close> owns an object whose dynamic type is \<open>OkType\<close> or a
  class derived from it. \<open>Object b\<close> is an object of dynamic type \<open>OkType\<close> whose
  members have the value \<open>b\<close>; \<open>Derived_object b d\<close> is an object of a derived class:
  its \<open>OkType\<close> base subobject has the value \<open>b\<close>, its further members the value \<open>d\<close>.
\<close>

datatype ('b, 'd) object = Object 'b | Derived_object 'b 'd

text \<open>
  Dereferencing a pointer to \<open>OkType\<close> gives an lvalue of static type \<open>OkType\<close>: the
  object itself when that is its dynamic type, its base subobject otherwise.
\<close>

definition OkType_part :: "('b, 'd) object \<Rightarrow> 'b" where
  "OkType_part x = (case x of Object b \<Rightarrow> b | Derived_object b d \<Rightarrow> b)"

definition is_OkType :: "('b, 'd) object \<Rightarrow> bool" where
  "is_OkType x = (case x of Object b \<Rightarrow> True | Derived_object b d \<Rightarrow> False)"

text \<open>
  Objects created by \<open>new\<close> live in a heap: a list of cells, the address of a cell
  being its index; a cell is \<open>Some x\<close> while the object \<open>x\<close> lives there and \<open>None\<close>
  once it is deleted. No object lives at an address past the end of the list. A
  \<open>std::unique_ptr\<close> is null or holds an address.
\<close>

type_synonym addr = nat

type_synonym 'a heap = "'a option list"

datatype unique_ptr = nullptr | Ptr addr

definition heap_get :: "'a heap \<Rightarrow> addr \<Rightarrow> 'a option" where
  "heap_get h a = (if a < length h then h ! a else None)"

text \<open>
  \<open>new\<close> returns storage that no living object occupies: the first cell that is
  \<open>None\<close>, or the cell past the end of the heap when every cell holds an object.
\<close>

fun free_cell :: "'a heap \<Rightarrow> addr" where
  "free_cell [] = 0"
| "free_cell (c # h) = (case c of None \<Rightarrow> 0 | Some x \<Rightarrow> Suc (free_cell h))"

definition heap_put :: "'a heap \<Rightarrow> addr \<Rightarrow> 'a \<Rightarrow> 'a heap" where
  "heap_put h a x = (if a < length h then h[a := Some x] else h @ [Some x])"

text \<open>
  \<open>std::make_unique<OkType>(b)\<close> with \<open>b\<close> an lvalue of type \<open>OkType\<close>:
  \<open>new OkType(b)\<close> creates an object of dynamic type \<open>OkType\<close> through the copy
  constructor of \<open>OkType\<close>, taken to be the implicit, memberwise one, so that the
  members of the new object have the value \<open>b\<close>; the result is the \<open>std::unique_ptr\<close>
  that owns the new object.
\<close>

definition make_unique ::
  "'b \<Rightarrow> ('b, 'd) object heap \<Rightarrow> unique_ptr \<times> ('b, 'd) object heap" where
  "make_unique b h = (Ptr (free_cell h), heap_put h (free_cell h) (Object b))"

text \<open>
  \<open>Result<std::unique_ptr<OkType>, ErrType>\<close> has the same two data members, and
  its constructors, \<open>isOk\<close>, \<open>isErr\<close> and \<open>err\<close> have the bodies of the generic
  template; it is the record \<open>Result\<close> at \<open>'ok = unique_ptr\<close>. The constructor from
  a \<open>std::unique_ptr\<close> stores the pointer it is given, null or not. Its \<open>ok\<close> differs:
  it dereferences the stored pointer (\<open>**value\<close>, of static type \<open>OkType\<close>) and
  returns \<open>std::make_unique<OkType>(**value)\<close>. It reads the heap and allocates, so
  it takes the heap and returns the new heap.
\<close>

definition ok_unique_ptr ::
  "(unique_ptr, 'err) Result \<Rightarrow> ('b, 'd) object heap
   \<Rightarrow> fault + (unique_ptr option \<times> ('b, 'd) object heap)" where
  "ok_unique_ptr r h =
     (if isOk_fld r then
        (case get_if_Ok (result_fld r) of
           Some p \<Rightarrow>
             (case p of
                nullptr \<Rightarrow> Inl Null_dereference
              | Ptr a \<Rightarrow>
                  (case heap_get h a of
                     None \<Rightarrow> Inl Dangling_dereference
                   | Some x \<Rightarrow>
                       (case make_unique (OkType_part x) h of
                          (q, h') \<Rightarrow> Inr (Some q, h'))))
         | None \<Rightarrow> Inr (None, h))
      else Inr (None, h))"

section \<open>Properties of Error\<close>

lemma digit_char_is_digit: "d < 10 \<Longrightarrow> is_digit (digit_char d)"
  by (simp add: is_digit_def digit_char_def)

lemma digit_value_digit_char: "d < 10 \<Longrightarrow> digit_value (digit_char d) = d"
  by (simp add: digit_value_def digit_char_def)

lemma decimal_value_snoc:
  "decimal_value (s @ [c]) = 10 * decimal_value s + digit_value c"
  by (simp add: decimal_value_def)

lemma to_string_nat_digits: "list_all is_digit (to_string_nat n)"
proof (induction n rule: to_string_nat.induct)
  case (1 n)
  show ?case
  proof (cases "n < 10")
    case True
    then show ?thesis
      by (simp add: to_string_nat.simps [of n] digit_char_is_digit)
  next
    case False
    with 1 show ?thesis
      by (simp add: to_string_nat.simps [of n] digit_char_is_digit)
  qed
qed

lemma decimal_value_to_string_nat: "decimal_value (to_string_nat n) = n"
proof (induction n rule: to_string_nat.induct)
  case (1 n)
  show ?case
  proof (cases "n < 10")
    case True
    then show ?thesis
      by (simp add: to_string_nat.simps [of n] decimal_value_def digit_value_digit_char)
  next
    case False
    with 1 show ?thesis
      by (simp add: to_string_nat.simps [of n] decimal_value_snoc digit_value_digit_char)
  qed
qed

lemma to_string_nat_not_Nil: "to_string_nat n \<noteq> []"
  by (simp add: to_string_nat.simps [of n])

lemma to_string_decimal:
  "list_all is_digit (to_string w) \<and> decimal_value (to_string w) = unat w"
  by (simp add: to_string_def to_string_nat_digits decimal_value_to_string_nat)

text \<open>
  C8. For every message \<open>m\<close>, the Error built by \<open>create(m)\<close>, with no source
  location, has \<open>msg() = m\<close> and \<open>info() = m\<close>: its diagnostic \<open>info_fld\<close> is empty,
  so \<open>info()\<close> falls back to the message.
\<close>

theorem create_msg_info:
  "msg (create m) = m \<and> info (create m) = m \<and> info_fld (create m) = []"
  by (simp add: create_def Error_msg_def msg_def info_def empty_def)

text \<open>
  C10. For the Error built by \<open>create("")\<close>, with the empty message and no source
  location, \<open>info()\<close> returns the empty string: \<open>info()\<close> is non-empty only when
  the message or the diagnostic is.
\<close>

theorem create_empty_info_empty:
  "info (create []) = [] \<and> empty (info (create []))"
  by (simp add: create_def Error_msg_def info_def empty_def)

text \<open>
  C2. For every message \<open>m\<close>, file \<open>f\<close>, line \<open>n\<close> and function name \<open>fn\<close>, the
  Error built by \<open>create(m, SourceLocation(f, n, fn))\<close> has \<open>info()\<close> equal to
  \<open>"Error: " + m + "\nFunction: " + fn + "\nFile: " + f + ":" + n\<close>, with \<open>n\<close> printed
  in decimal, and this string is never empty.
\<close>

theorem create_slc_info:
  "info (create_slc m (SourceLocation f n fn)) =
     ''Error: '' @ m @ [CHR 0x0A] @ ''Function: '' @ fn @ [CHR 0x0A] @ ''File: '' @ f
       @ '':'' @ to_string n
   \<and> info (create_slc m (SourceLocation f n fn)) \<noteq> []
   \<and> info_fld (create_slc m (SourceLocation f n fn)) \<noteq> []
   \<and> list_all is_digit (to_string n) \<and> decimal_value (to_string n) = unat n"
  by (simp add: create_slc_def Error_msg_slc_def SourceLocation_def info_def empty_def
      append_def file_of_def line_of_def function_of_def to_string_decimal)

text \<open>
  C6. \<open>set(newMessage)\<close> overwrites the message and leaves the diagnostic as it is:
  afterwards \<open>msg()\<close> is the new message; for an Error built with a SourceLocation
  \<open>info()\<close> is still the diagnostic of the construction, with the old message in it;
  for an Error built without one \<open>info()\<close> is the new message.
\<close>

theorem set_overwrites_msg_only:
  "msg (set_Error m' e) = m'
   \<and> info_fld (set_Error m' e) = info_fld e
   \<and> info (set_Error m' (create_slc m slc)) = info (create_slc m slc)
   \<and> info (set_Error m' (create_slc m (SourceLocation f n fn))) =
       ''Error: '' @ m @ [CHR 0x0A] @ ''Function: '' @ fn @ [CHR 0x0A] @ ''File: '' @ f
         @ '':'' @ to_string n
   \<and> info (set_Error m' (create m)) = m'"
  by (simp add: set_Error_def msg_def info_def empty_def create_def create_slc_def
      Error_msg_def Error_msg_slc_def SourceLocation_def append_def file_of_def line_of_def
      function_of_def)

section \<open>Properties of Result\<close>

lemma consistent_Result_Ok: "consistent (Result_Ok v)"
  by (simp add: consistent_def Result_Ok_def)

lemma consistent_Result_Err: "consistent (Result_Err e)"
  by (simp add: consistent_def Result_Err_def)

lemma Ok_state_is_Result_Ok:
  assumes "isOk r" and "ok r = Some v"
  shows "r = Result_Ok v"
proof -
  from assms have "isOk_fld r" and "get_if_Ok (result_fld r) = Some v"
    by (auto simp: isOk_def ok_def split: option.splits)
  then have "isOk_fld r" and "result_fld r = Inl v"
    by (auto simp: get_if_Ok_def split: sum.splits)
  then show ?thesis
    by (simp add: Result_Ok_def)
qed

lemma Err_state_is_Result_Err:
  assumes "isErr r" and "err r = Some e"
  shows "r = Result_Err e"
proof -
  from assms have "\<not> isOk_fld r" and "get_if_Err (result_fld r) = Some e"
    by (auto simp: isErr_def err_def split: option.splits if_splits)
  then have "\<not> isOk_fld r" and "result_fld r = Inr e"
    by (auto simp: get_if_Err_def split: sum.splits)
  then show ?thesis
    by (simp add: Result_Err_def)
qed

lemma map_Result_consistent:
  assumes "consistent r"
  shows "\<exists>r'. map_Result func r = Inr r' \<and> consistent r'"
proof (cases "result_fld r")
  case (Inl v)
  with assms have "isOk_fld r"
    by (simp add: consistent_def)
  with Inl show ?thesis
    by (cases func)
      (simp_all add: map_Result_def get_if_Ok_def consistent_Result_Ok consistent_Result_Err)
next
  case (Inr e)
  with assms have "\<not> isOk_fld r"
    by (simp add: consistent_def)
  with Inr show ?thesis
    by (simp add: map_Result_def get_if_Err_def consistent_Result_Err)
qed

lemma mapErr_consistent:
  assumes "consistent r"
  shows "\<exists>r'. mapErr func r = Inr r' \<and> consistent r'"
proof (cases "result_fld r")
  case (Inl v)
  with assms have "isOk_fld r"
    by (simp add: consistent_def)
  with Inl show ?thesis
    by (simp add: mapErr_def get_if_Ok_def consistent_Result_Ok)
next
  case (Inr e)
  with assms have "\<not> isOk_fld r"
    by (simp add: consistent_def)
  with Inr show ?thesis
    by (cases func)
      (simp_all add: mapErr_def get_if_Err_def consistent_Result_Ok consistent_Result_Err)
qed

lemma build_consistent: "\<exists>r. build h = Inr r \<and> consistent r"
proof (induction h)
  case (From_Ok v)
  show ?case by (simp add: consistent_Result_Ok)
next
  case (From_Err e)
  show ?case by (simp add: consistent_Result_Err)
next
  case (Map func h)
  then obtain r where r: "build h = Inr r" "consistent r"
    by blast
  from map_Result_consistent [OF r(2), of func] r(1) show ?case
    by simp
next
  case (MapErr func h)
  then obtain r where r: "build h = Inr r" "consistent r"
    by blast
  from mapErr_consistent [OF r(2), of func] r(1) show ?case
    by simp
qed

lemma consistent_queries:
  assumes "consistent r"
  shows "isOk r = (\<not> isErr r)"
    and "(\<exists>v. ok r = Some v \<and> err r = None \<and> isOk r)
         \<or> (\<exists>e. err r = Some e \<and> ok r = None \<and> isErr r)"
proof -
  show "isOk r = (\<not> isErr r)"
    by (simp add: isOk_def isErr_def)
  show "(\<exists>v. ok r = Some v \<and> err r = None \<and> isOk r)
         \<or> (\<exists>e. err r = Some e \<and> ok r = None \<and> isErr r)"
  proof (cases "result_fld r")
    case (Inl v)
    with assms have "isOk_fld r"
      by (simp add: consistent_def)
    with Inl show ?thesis
      by (simp add: ok_def err_def isOk_def get_if_Ok_def)
  next
    case (Inr e)
    with assms have "\<not> isOk_fld r"
      by (simp add: consistent_def)
    with Inr show ?thesis
      by (simp add: ok_def err_def isErr_def get_if_Err_def)
  qed
qed

text \<open>
  C1. A \<open>Result\<close> constructed from an Ok value \<open>v\<close> has \<open>isOk()\<close> true, \<open>isErr()\<close>
  false, \<open>ok()\<close> equal to \<open>v\<close> and \<open>err()\<close> empty, whatever the error type; a
  \<open>Result\<close> constructed from an error value \<open>e\<close> has \<open>isOk()\<close> false, \<open>isErr()\<close>
  true, \<open>ok()\<close> empty and \<open>err()\<close> equal to \<open>e\<close>.
\<close>

theorem constructed_queries:
  "isOk (Result_Ok v) \<and> \<not> isErr (Result_Ok v)
   \<and> ok (Result_Ok v) = Some v \<and> err (Result_Ok v) = None
   \<and> \<not> isOk (Result_Err e) \<and> isErr (Result_Err e)
   \<and> ok (Result_Err e) = None \<and> err (Result_Err e) = Some e"
  by (simp add: isOk_def isErr_def ok_def err_def Result_Ok_def Result_Err_def
      get_if_Ok_def get_if_Err_def)

text \<open>
  C3. For a \<open>Result\<close> in the Ok state holding \<open>v\<close> and a function \<open>f\<close> from Ok to
  Ok that \<open>map\<close> can invoke, \<open>map(f)\<close> returns a \<open>Result\<close> in the Ok state whose
  \<open>ok()\<close> is \<open>f(v)\<close>.
\<close>

theorem map_applies_function:
  "\<exists>r'. map_Result (Invocable_r f) (Result_Ok v) = Inr r'
     \<and> isOk r' \<and> \<not> isErr r' \<and> ok r' = Some (f v) \<and> err r' = None"
  by (simp add: map_Result_def Result_Ok_def get_if_Ok_def get_if_Err_def
      isOk_def isErr_def ok_def err_def)

text \<open>
  C4. On the opposite branch \<open>map\<close> and \<open>mapErr\<close> keep the stored value: for a
  \<open>Result\<close> in the Err state holding \<open>e\<close> and any callable, \<open>map\<close> returns a
  \<open>Result\<close> with \<open>isErr()\<close> true and \<open>err()\<close> equal to \<open>e\<close>; for a \<open>Result\<close> in the
  Ok state holding \<open>v\<close> and any callable, \<open>mapErr\<close> returns a \<open>Result\<close> with
  \<open>isOk()\<close> true and \<open>ok()\<close> equal to \<open>v\<close>.
\<close>

theorem map_opposite_branch_identity:
  "(\<exists>r'. map_Result func (Result_Err e) = Inr r'
      \<and> isErr r' \<and> err r' = Some e \<and> r' = Result_Err e)
   \<and> (\<exists>r'. mapErr func' (Result_Ok v) = Inr r'
      \<and> isOk r' \<and> ok r' = Some v \<and> r' = Result_Ok v)"
  by (simp add: map_Result_def mapErr_def Result_Ok_def Result_Err_def get_if_Ok_def
      get_if_Err_def isOk_def isErr_def ok_def err_def)

text \<open>
  C7, as the claim states it, fails on a callable that is not a function from Ok to
  Ok and still passes the test \<open>std::is_invocable_r_v\<close> of \<open>map\<close>. In
  \<open>Result<int, long>\<close> a callable from \<open>int\<close> to \<open>long\<close> passes it, since \<open>long\<close>
  converts to \<open>int\<close>; \<open>map\<close> invokes it on the stored \<open>5\<close>, and the \<open>long\<close> it
  returns selects the constructor of the Err alternative: the \<open>Result\<close> returned is
  in the Err state and holds no Ok value.
\<close>

theorem map_pass_through_counterexample:
  "map_Result (Invocable_r_other (scast :: 32 word \<Rightarrow> 64 word)) (Result_Ok 5)
     = Inr (Result_Err 5)
   \<and> isOk (Result_Ok 5 :: (32 word, 64 word) Result)
   \<and> \<not> isOk (Result_Err 5 :: (32 word, 64 word) Result)
   \<and> ok (Result_Err 5 :: (32 word, 64 word) Result) = None
   \<and> (Result_Err 5 :: (32 word, 64 word) Result) \<noteq> Result_Ok 5"
  by (simp add: map_Result_def Result_Ok_def Result_Err_def get_if_Ok_def
      get_if_Err_def isOk_def ok_def)

text \<open>
  C7, amended. When \<open>std::is_invocable_r_v<OkType, Function, OkType const &>\<close> is
  false for the callable given to \<open>map\<close> (it cannot be called with an Ok value, or
  what it returns does not convert to Ok), \<open>map\<close> on a \<open>Result\<close> in the Ok state
  returns a \<open>Result\<close> in the same state with the same stored value, and does not
  fail; likewise \<open>mapErr\<close> on a \<open>Result\<close> in the Err state when
  \<open>std::is_invocable_r_v<ErrType, Function, ErrType const &>\<close> is false.
\<close>

theorem map_pass_through:
  "(\<exists>r'. map_Result Not_invocable_r (Result_Ok v) = Inr r'
      \<and> isOk r' \<and> ok r' = Some v \<and> r' = Result_Ok v)
   \<and> (\<exists>r'. mapErr Not_invocable_r (Result_Err e) = Inr r'
      \<and> isErr r' \<and> err r' = Some e \<and> r' = Result_Err e)"
  by (simp add: map_Result_def mapErr_def Result_Ok_def Result_Err_def get_if_Ok_def
      get_if_Err_def isOk_def isErr_def ok_def err_def)

text \<open>
  C9. Every \<open>Result\<close> obtained from the constructors by any number of \<open>map\<close> and
  \<open>mapErr\<close> calls exists (no call dereferences a null pointer), its flag agrees with
  the alternative its variant holds, \<open>isOk()\<close> and \<open>isErr()\<close> are complements, and
  exactly one of \<open>ok()\<close> and \<open>err()\<close> holds a value while the other is empty.
\<close>

theorem reachable_consistent:
  "\<exists>r. build h = Inr r \<and> consistent r \<and> isOk r = (\<not> isErr r)
     \<and> ((\<exists>v. ok r = Some v \<and> err r = None \<and> isOk r)
        \<or> (\<exists>e. err r = Some e \<and> ok r = None \<and> isErr r))"
proof -
  obtain r where r: "build h = Inr r" "consistent r"
    using build_consistent by blast
  from r consistent_queries [OF r(2)] show ?thesis
    by blast
qed

section \<open>Properties of the specialisation for \<open>std::unique_ptr\<close>\<close>

lemma free_cell_le_length: "free_cell h \<le> length h"
  by (induction h) (simp_all split: option.splits)

lemma heap_get_free_cell: "heap_get h (free_cell h) = None"
proof (induction h)
  case Nil
  show ?case by (simp add: heap_get_def)
next
  case (Cons c h)
  then show ?case
    by (cases c) (auto simp: heap_get_def split: if_splits)
qed

lemma heap_get_heap_put_same:
  "a \<le> length h \<Longrightarrow> heap_get (heap_put h a x) a = Some x"
  by (simp add: heap_get_def heap_put_def)

lemma heap_get_heap_put_other:
  "b \<noteq> a \<Longrightarrow> a \<le> length h \<Longrightarrow> heap_get (heap_put h a x) b = heap_get h b"
  by (auto simp: heap_get_def heap_put_def nth_append)

lemma make_unique_fresh:
  assumes "make_unique v h = (Ptr p, h')"
  shows "heap_get h p = None"
    and "heap_get h' p = Some (Object v)"
    and "heap_get h b = Some y \<Longrightarrow> b \<noteq> p \<and> heap_get h' b = Some y"
proof -
  from assms have p: "p = free_cell h"
    and h': "h' = heap_put h (free_cell h) (Object v)"
    by (auto simp: make_unique_def)
  show none: "heap_get h p = None"
    by (simp add: p heap_get_free_cell)
  show "heap_get h' p = Some (Object v)"
    by (simp add: p h' heap_get_heap_put_same free_cell_le_length)
  show "b \<noteq> p \<and> heap_get h' b = Some y" if b: "heap_get h b = Some y"
  proof -
    from b none have "b \<noteq> p"
      by auto
    with b show ?thesis
      by (simp add: p h' heap_get_heap_put_other free_cell_le_length)
  qed
qed

lemma ok_unique_ptr_copies:
  assumes "heap_get h a = Some x"
  shows "ok_unique_ptr (Result_Ok (Ptr a)) h
         = Inr (Some (Ptr (free_cell h)),
                heap_put h (free_cell h) (Object (OkType_part x)))"
  using assms
  by (simp add: ok_unique_ptr_def Result_Ok_def get_if_Ok_def make_unique_def)

lemma ok_unique_ptr_nullptr: "ok_unique_ptr (Result_Ok nullptr) h = Inl Null_dereference"
  by (simp add: ok_unique_ptr_def Result_Ok_def get_if_Ok_def)

lemma ok_unique_ptr_Err: "ok_unique_ptr (Result_Err e) h = Inr (None, h)"
  by (simp add: ok_unique_ptr_def Result_Err_def)

lemma Object_OkType_part: "is_OkType x \<Longrightarrow> Object (OkType_part x) = x"
  by (cases x) (simp_all add: is_OkType_def OkType_part_def)

text \<open>
  C5, as the claim states it, fails at two inputs. A \<open>Result\<close> constructed from a
  null \<open>std::unique_ptr\<close> is in the Ok state, and its \<open>ok()\<close> dereferences the null
  pointer instead of returning a pointer. A \<open>Result\<close> that owns an object of a class
  derived from \<open>OkType\<close> returns a pointer to an object of dynamic type \<open>OkType\<close>,
  copied from the base subobject alone, which is not equal to the pointee.
\<close>

theorem ok_unique_ptr_deep_copy_counterexample:
  "isOk (Result_Ok nullptr :: (unique_ptr, string) Result)
   \<and> ok_unique_ptr (Result_Ok nullptr :: (unique_ptr, string) Result)
        ([] :: (nat, nat) object heap) = Inl Null_dereference
   \<and> ok_unique_ptr (Result_Ok (Ptr 0) :: (unique_ptr, string) Result)
        [Some (Derived_object (1::nat) (2::nat))]
      = Inr (Some (Ptr 1), [Some (Derived_object 1 2), Some (Object 1)])
   \<and> (Object 1 :: (nat, nat) object) \<noteq> Derived_object 1 2"
  by (simp add: ok_unique_ptr_def Result_Ok_def get_if_Ok_def make_unique_def
      heap_get_def heap_put_def OkType_part_def isOk_def)

text \<open>
  C5, amended. Let a \<open>Result<std::unique_ptr<OkType>, ErrType>\<close> in the Ok state
  hold a pointer that is not null and owns the object \<open>x\<close> at address \<open>a\<close>. Then
  \<open>ok()\<close> returns a pointer \<open>p\<close> to a new object: \<open>p\<close> is not \<open>a\<close>, no object lived at
  \<open>p\<close> before, the object at \<open>p\<close> is an \<open>OkType\<close> copied from the \<open>OkType\<close> part of
  \<open>x\<close>, hence equal to \<open>x\<close> when the dynamic type of \<open>x\<close> is \<open>OkType\<close>, and every
  object that lived before the call, \<open>x\<close> at \<open>a\<close> among them, still lives unchanged.
  The container is not consumed: a second \<open>ok()\<close> returns a pointer to one more such
  copy, at an address that is neither \<open>a\<close> nor \<open>p\<close>.
\<close>

theorem ok_unique_ptr_deep_copy:
  fixes h :: "('b, 'd) object heap" and x :: "('b, 'd) object"
  assumes "heap_get h a = Some x"
  shows "\<exists>p h'. ok_unique_ptr (Result_Ok (Ptr a) :: (unique_ptr, 'e) Result) h
                  = Inr (Some (Ptr p), h')
           \<and> p \<noteq> a \<and> heap_get h p = None
           \<and> heap_get h' p = Some (Object (OkType_part x))
           \<and> (is_OkType x \<longrightarrow> heap_get h' p = Some x)
           \<and> heap_get h' a = Some x
           \<and> (\<forall>b y. heap_get h b = Some y \<longrightarrow> heap_get h' b = Some y)
           \<and> (\<exists>q h''. ok_unique_ptr (Result_Ok (Ptr a) :: (unique_ptr, 'e) Result) h'
                         = Inr (Some (Ptr q), h'')
                \<and> q \<noteq> a \<and> q \<noteq> p
                \<and> heap_get h'' q = Some (Object (OkType_part x))
                \<and> (is_OkType x \<longrightarrow> heap_get h'' q = Some x)
                \<and> heap_get h'' p = Some (Object (OkType_part x))
                \<and> heap_get h'' a = Some x)"
proof -
  define c :: "('b, 'd) object" where "c = Object (OkType_part x)"
  define p where "p = free_cell h"
  define h' where "h' = heap_put h p c"
  define q where "q = free_cell h'"
  define h'' where "h'' = heap_put h' q c"
  have c: "is_OkType x \<longrightarrow> c = x"
    by (simp add: c_def Object_OkType_part)
  have mk1: "make_unique (OkType_part x) h = (Ptr p, h')"
    by (simp add: make_unique_def p_def h'_def c_def)
  have mk2: "make_unique (OkType_part x) h' = (Ptr q, h'')"
    by (simp add: make_unique_def q_def h''_def c_def)
  have first: "ok_unique_ptr (Result_Ok (Ptr a) :: (unique_ptr, 'e) Result) h
                 = Inr (Some (Ptr p), h')"
    using ok_unique_ptr_copies [OF assms] by (simp add: p_def h'_def c_def)
  have p_new: "heap_get h p = None" and p': "heap_get h' p = Some c"
    using make_unique_fresh(1,2) [OF mk1] by (simp_all add: c_def)
  have frame1: "b \<noteq> p \<and> heap_get h' b = Some y" if "heap_get h b = Some y" for b y
    using make_unique_fresh(3) [OF mk1 that] .
  have a': "a \<noteq> p" "heap_get h' a = Some x"
    using frame1 [OF assms] by simp_all
  have second: "ok_unique_ptr (Result_Ok (Ptr a) :: (unique_ptr, 'e) Result) h'
                  = Inr (Some (Ptr q), h'')"
    using ok_unique_ptr_copies [OF a'(2)] by (simp add: q_def h''_def c_def)
  have q'': "heap_get h'' q = Some c"
    using make_unique_fresh(2) [OF mk2] by (simp add: c_def)
  have a'': "a \<noteq> q" "heap_get h'' a = Some x"
    using make_unique_fresh(3) [OF mk2 a'(2)] by simp_all
  have p'': "p \<noteq> q" "heap_get h'' p = Some c"
    using make_unique_fresh(3) [OF mk2 p'] by simp_all
  have inner: "\<exists>q h''. ok_unique_ptr (Result_Ok (Ptr a) :: (unique_ptr, 'e) Result) h'
                         = Inr (Some (Ptr q), h'')
                \<and> q \<noteq> a \<and> q \<noteq> p
                \<and> heap_get h'' q = Some c
                \<and> (is_OkType x \<longrightarrow> heap_get h'' q = Some x)
                \<and> heap_get h'' p = Some c
                \<and> heap_get h'' a = Some x"
    using second q'' a'' p'' c by (intro exI [of _ q] exI [of _ h'']) auto
  have frame: "\<forall>b y. heap_get h b = Some y \<longrightarrow> heap_get h' b = Some y"
    using frame1 by blast
  show ?thesis
    unfolding c_def [symmetric]
    using first a' p_new p' frame inner c
    by (intro exI [of _ p] exI [of _ h']) auto
qed

theorem ok_unique_ptr_deep_copy_witness:
  "heap_get [Some (Object (7::nat)), None, Some (Derived_object 9 (1::nat))] 0
     = Some (Object 7)
   \<and> is_OkType (Object (7::nat) :: (nat, nat) object)
   \<and> (\<exists>p h'. ok_unique_ptr (Result_Ok (Ptr 0) :: (unique_ptr, string) Result)
                [Some (Object (7::nat)), None, Some (Derived_object 9 (1::nat))]
              = Inr (Some (Ptr p), h')
           \<and> p \<noteq> 0 \<and> heap_get h' p = Some (Object 7)
           \<and> heap_get h' 0 = Some (Object 7))"
proof -
  have h: "heap_get [Some (Object (7::nat)), None, Some (Derived_object 9 (1::nat))] 0
             = Some (Object 7)"
    by (simp add: heap_get_def)
  have t: "is_OkType (Object (7::nat) :: (nat, nat) object)"
    by (simp add: is_OkType_def)
  from ok_unique_ptr_deep_copy [OF h, where ?'e = string] h t show ?thesis
    by blast
qed

end
